theory Spec2Isabelle
  imports Complex_Main "HOL-Library.FSet"
begin

section \<open>TILDE: a shallow embedding of modeling.py\<close>

text \<open>
  The development follows \<^verbatim>\<open>src/modeling.py\<close>: the class \<^verbatim>\<open>TILDE\<close> (the
  bi-directional loss), the class \<^verbatim>\<open>TILDEv2\<close> (token weights, separator masking,
  exact-match scoring, ranking labels) and \<^verbatim>\<open>TILDEv2Trainer\<close> (saving, data loader).

  Conventions of the embedding.
  \<^item> A tensor is a nested list, outermost dimension first. A trailing dimension of size
    one (the \<^verbatim>\<open>d = 1\<close> of the token weights) is dropped.
  \<^item> Integer tensors hold \<^typ>\<open>int\<close>; float tensors hold \<^typ>\<open>real\<close>: rounding, overflow
    and the saturation of float32 are not modelled.
  \<^item> Every exception of the source is a value \<open>Inl e\<close> of the result type;
    \<open>RuntimeError\<close> is what torch raises on an index out of bounds, on shapes that do
    not fit and on a reduction over an empty dimension. \<open>NotFinite\<close> is not an
    exception: it is the float result \<^verbatim>\<open>inf\<close> or \<^verbatim>\<open>nan\<close> of a division by zero,
    which no real number denotes.
  \<^item> The pretrained encoder, the tokenizer and the inherited \<^verbatim>\<open>Trainer\<close> methods are
    not part of the repository; they are fields of the records below.
\<close>

datatype error =
    AssertionError
  | ValueError string
  | KeyError string
  | IndexError
  | RuntimeError
  | ZeroDivisionError
  | NotFinite
  | BackboneError

subsection \<open>TILDEv2: the model object and \<^verbatim>\<open>encode\<close>\<close>

type_synonym features = "string \<rightharpoonup> int list list"

text \<open>
  \<open>bert\<close> is the call \<^verbatim>\<open>self.bert(**features, return_dict=True).last_hidden_state\<close>
  (batch, position, hidden); it is \<open>None\<close> when that call raises, which includes Python
  rejecting the keyword arguments. \<open>tok_proj\<close> is the learned layer
  \<^verbatim>\<open>Linear(hidden_size, 1)\<close> applied to one hidden vector. The \<^verbatim>\<open>assert\<close> of
  \<^verbatim>\<open>encode\<close> is executed (the interpreter does not run with \<^verbatim>\<open>-O\<close>).
\<close>

record TILDEv2 =
  bert :: "features \<Rightarrow> real list list list option"
  tok_proj :: "real list \<Rightarrow> real"
  train_group_size :: nat

definition relu :: "real \<Rightarrow> real" where
  "relu x = max 0 x"

definition required_keys :: "string list" where
  "required_keys = [''input_ids'', ''attention_mask'', ''token_type_ids'']"

definition encode :: "TILDEv2 \<Rightarrow> features \<Rightarrow> error + real list list" where
  "encode self features =
     (if list_all (\<lambda>x. features x \<noteq> None) required_keys then
        (case bert self features of
           None \<Rightarrow> Inl BackboneError
         | Some last_hidden_state \<Rightarrow>
             (let reps = map (map (tok_proj self)) last_hidden_state;
                  tok_weights = map (map relu) reps
              in Inr tok_weights))
      else Inl AssertionError)"

subsection \<open>TILDEv2Trainer\<close>

text \<open>
  The trainer acts on the outside world; each action is an event, and a method returns
  the events it performed, in order. File operations are taken to succeed.
  \<open>is_world_process_zero\<close> is the result of the inherited method of that name,
  \<open>get_train_sampler\<close> the inherited \<^verbatim>\<open>_get_train_sampler\<close>.
\<close>

datatype event =
    Makedirs string
  | ModelSavePretrained string
  | TokenizerSavePretrained string
  | TorchSaveArgs string
  | GetTrainSampler
  | DataLoaderInit

record training_args =
  output_dir :: string
  train_batch_size :: nat
  dataloader_num_workers :: nat

record data_loader =
  dl_dataset :: "nat list"
  dl_batch_size :: nat
  dl_sampler :: "nat list"
  dl_drop_last :: bool
  dl_num_workers :: nat

record TILDEv2Trainer =
  args :: training_args
  has_tokenizer :: bool
  is_world_process_zero :: bool
  train_dataset :: "nat list option"
  get_train_sampler :: "nat list \<Rightarrow> nat list"

text \<open>\<^verbatim>\<open>os.path.join(a, b)\<close> on POSIX, for a relative second component.\<close>

definition path_join :: "string \<Rightarrow> string \<Rightarrow> string" where
  "path_join a b = (if a = [] \<or> last a = CHR ''/'' then a @ b else a @ ''/'' @ b)"

definition trainer_save :: "TILDEv2Trainer \<Rightarrow> string option \<Rightarrow> event list" where
  "trainer_save self output_dir_arg =
     (let out = (case output_dir_arg of Some d \<Rightarrow> d | None \<Rightarrow> output_dir (args self))
      in [Makedirs out, ModelSavePretrained out]
         @ (if has_tokenizer self \<and> is_world_process_zero self
            then [TokenizerSavePretrained out] else [])
         @ [TorchSaveArgs (path_join out ''training_args.bin'')])"

definition get_train_dataloader :: "TILDEv2Trainer \<Rightarrow> (error + data_loader) \<times> event list" where
  "get_train_dataloader self =
     (case train_dataset self of
        None \<Rightarrow> (Inl (ValueError ''Trainer: training requires a train_dataset.''), [])
      | Some ds \<Rightarrow>
          (let train_sampler = get_train_sampler self ds
           in (Inr \<lparr>dl_dataset = ds,
                     dl_batch_size = train_batch_size (args self),
                     dl_sampler = train_sampler,
                     dl_drop_last = True,
                     dl_num_workers = dataloader_num_workers (args self)\<rparr>,
               [GetTrainSampler, DataLoaderInit])))"

subsection \<open>\<^verbatim>\<open>mask_sep\<close>\<close>

text \<open>
  \<^verbatim>\<open>scatter_\<close> writes into the tensor it is called on, and \<^verbatim>\<open>forward\<close> relies on
  that: it ignores the value \<^verbatim>\<open>mask_sep\<close> returns and reads the mask it passed. So
  integer tensors that are mutated live in a store, and a tensor argument is a reference
  into it.
\<close>

type_synonym ref = nat
type_synonym heap = "ref \<Rightarrow> int list list"

text \<open>\<^verbatim>\<open>qry_attention_mask.sum(1).unsqueeze(1) - 1\<close>: one index per row.\<close>

definition sep_pos :: "int list list \<Rightarrow> int list list" where
  "sep_pos m = map (\<lambda>row. [sum_list row - 1]) m"

definition zeros_like :: "int list list \<Rightarrow> int list list" where
  "zeros_like t = map (map (\<lambda>_. 0)) t"

text \<open>
  \<^verbatim>\<open>self.scatter_(1, index, src)\<close> sets \<^verbatim>\<open>self[i][index[i][j]] = src[i][j]\<close> for every
  \<open>i\<close>, \<open>j\<close> of \<open>index\<close>. An index outside \<open>0 .. size - 1\<close> raises (torch does not wrap
  negative indices here), as does an \<open>index\<close> larger than \<open>src\<close> or \<open>self\<close>.
\<close>

fun scatter_row :: "int list \<Rightarrow> int list \<Rightarrow> int list \<Rightarrow> error + int list" where
  "scatter_row row [] src = Inr row"
| "scatter_row row (k # ks) [] = Inl RuntimeError"
| "scatter_row row (k # ks) (s # ss) =
     (if 0 \<le> k \<and> k < int (length row) then scatter_row (row[nat k := s]) ks ss
      else Inl RuntimeError)"

fun scatter_dim1 ::
  "int list list \<Rightarrow> int list list \<Rightarrow> int list list \<Rightarrow> error + int list list" where
  "scatter_dim1 self [] src = Inr self"
| "scatter_dim1 [] (ix # ixs) src = Inl RuntimeError"
| "scatter_dim1 (row # rows) (ix # ixs) [] = Inl RuntimeError"
| "scatter_dim1 (row # rows) (ix # ixs) (s # ss) =
     (case scatter_row row ix s of
        Inl e \<Rightarrow> Inl e
      | Inr row' \<Rightarrow>
          (case scatter_dim1 rows ixs ss of
             Inl e \<Rightarrow> Inl e
           | Inr rows' \<Rightarrow> Inr (row' # rows')))"

text \<open>
  The result is the new store and the reference the method returns, which is the one it
  was given. When \<^verbatim>\<open>scatter_\<close> raises, the exception leaves \<^verbatim>\<open>mask_sep\<close> and nothing
  is returned.
\<close>

definition mask_sep :: "heap \<Rightarrow> ref \<Rightarrow> error + heap \<times> ref" where
  "mask_sep h qry_attention_mask =
     (let sp = sep_pos (h qry_attention_mask);
          zs = zeros_like sp
      in case scatter_dim1 (h qry_attention_mask) sp zs of
           Inl e \<Rightarrow> Inl e
         | Inr m' \<Rightarrow> Inr (h(qry_attention_mask := m'), qry_attention_mask))"

text \<open>The separator index \<open>sum row - 1\<close> lies inside the row.\<close>

definition sep_in_range :: "int list \<Rightarrow> bool" where
  "sep_in_range row = (1 \<le> sum_list row \<and> sum_list row \<le> int (length row))"

subsection \<open>\<^verbatim>\<open>compute_tok_score_cart\<close>\<close>

text \<open>
  The gate: \<^verbatim>\<open>doc_input_ids.unsqueeze(0).unsqueeze(1) == qry_input_ids.unsqueeze(2).unsqueeze(3)\<close>,
  converted with \<^verbatim>\<open>.float()\<close>. Its dimensions are, in the order of the source's comment,
  query example, query position, document example, document position.
\<close>

definition exact_match :: "int list list \<Rightarrow> int list list \<Rightarrow> real list list list list" where
  "exact_match qry_input_ids doc_input_ids =
     map (map (\<lambda>q. map (map (\<lambda>d. if d = q then 1 else 0)) doc_input_ids)) qry_input_ids"

text \<open>
  \<^verbatim>\<open>t.shape[:2]\<close>. A nested list with no row does not record the size of its second
  dimension; it is read as \<open>0\<close> there.
\<close>

definition shape2 :: "'a list list \<Rightarrow> nat \<times> nat" where
  "shape2 t = (length t, case t of [] \<Rightarrow> 0 | r # _ \<Rightarrow> length r)"

text \<open>\<^verbatim>\<open>reps.view(-1, 1)\<close>: all weights in row-major order, as one column.\<close>

definition view_col :: "real list list \<Rightarrow> real list" where
  "view_col t = concat t"

text \<open>\<^verbatim>\<open>torch.matmul(a, b.transpose(0, 1))\<close> of two columns: the outer product.\<close>

definition matmul_col_row :: "real list \<Rightarrow> real list \<Rightarrow> real list list" where
  "matmul_col_row a b = map (\<lambda>x. map (\<lambda>y. x * y) b) a"

text \<open>\<open>blocks n k xs\<close>: the first \<open>n\<close> consecutive blocks of \<open>k\<close> elements of \<open>xs\<close>.\<close>

definition blocks :: "nat \<Rightarrow> nat \<Rightarrow> 'a list \<Rightarrow> 'a list list" where
  "blocks n k xs = map (\<lambda>i. take k (drop (i * k) xs)) [0..<n]"

text \<open>\<^verbatim>\<open>m.view(*qry_reps.shape[:2], *doc_reps.shape[:2])\<close> of a matrix \<open>m\<close>.\<close>

definition view4 ::
  "nat \<times> nat \<Rightarrow> nat \<times> nat \<Rightarrow> real list list \<Rightarrow> real list list list list" where
  "view4 qs ds m = blocks (fst qs) (snd qs) (map (blocks (fst ds) (snd ds)) m)"

definition mul4 ::
  "real list list list list \<Rightarrow> real list list list list \<Rightarrow> real list list list list" where
  "mul4 a b = map2 (map2 (map2 (map2 (*)))) a b"

text \<open>\<^verbatim>\<open>.max(dim=3)\<close> on one innermost row; torch raises when that dimension is empty.\<close>

fun max_list :: "real list \<Rightarrow> real" where
  "max_list (x # xs) = fold max xs x"

text \<open>\<^verbatim>\<open>scores * qry_attention_mask.unsqueeze(2)\<close>.\<close>

definition mul_mask :: "real list list list \<Rightarrow> int list list \<Rightarrow> real list list list" where
  "mul_mask scores am = map2 (map2 (\<lambda>row a. map (\<lambda>s. s * of_int a) row)) scores am"

text \<open>\<^verbatim>\<open>.sum(1)\<close> of a tensor whose last dimension has size \<open>d\<close>.\<close>

definition sum_dim1 :: "nat \<Rightarrow> real list list list \<Rightarrow> real list list" where
  "sum_dim1 d t = map (\<lambda>rows. foldr (map2 (+)) rows (replicate d 0)) t"

text \<open>
  The weights \<open>doc_reps\<close> and \<open>qry_reps\<close> are given without their last dimension of size
  one. The products of line 177 and line 178 need shapes that fit: the model computes
  them for equal shapes and returns \<open>RuntimeError\<close> for unequal ones (torch would also
  accept a dimension of size one against any size, which the model does not cover).
  \<^verbatim>\<open>[:, 1:]\<close> is \<open>map (drop 1)\<close>.
\<close>

definition compute_tok_score_cart ::
  "real list list \<Rightarrow> int list list \<Rightarrow> real list list \<Rightarrow> int list list \<Rightarrow> int list list
     \<Rightarrow> error + real list list" where
  "compute_tok_score_cart doc_reps doc_input_ids qry_reps qry_input_ids qry_attention_mask =
     (let em = exact_match qry_input_ids doc_input_ids;
          scores_no_masking =
            view4 (shape2 qry_reps) (shape2 doc_reps)
              (matmul_col_row (view_col qry_reps) (view_col doc_reps))
      in if shape2 qry_reps \<noteq> shape2 qry_input_ids \<or> shape2 doc_reps \<noteq> shape2 doc_input_ids
         then Inl RuntimeError
         else if [] \<in> set doc_reps then Inl RuntimeError
         else
           (let scores = map (map (map max_list)) (mul4 scores_no_masking em)
            in if shape2 qry_attention_mask \<noteq> shape2 qry_reps then Inl RuntimeError
               else Inr (sum_dim1 (length doc_reps)
                          (map (drop 1) (mul_mask scores qry_attention_mask)))))"

text \<open>Shapes: a tensor with \<open>n\<close> rows of \<open>k\<close> entries each.\<close>

definition tensor_shape :: "nat \<Rightarrow> nat \<Rightarrow> 'a list list \<Rightarrow> bool" where
  "tensor_shape n k t = (length t = n \<and> (\<forall>r\<in>set t. length r = k))"

definition rect :: "'a list list \<Rightarrow> bool" where
  "rect t = (\<forall>r\<in>set t. length r = snd (shape2 t))"

definition good_row :: "nat \<Rightarrow> real list \<Rightarrow> bool" where
  "good_row d r = (length r = d \<and> (\<forall>s\<in>set r. 0 \<le> s))"

subsection \<open>\<^verbatim>\<open>TILDEv2.forward\<close>\<close>

text \<open>
  The arguments \<open>qry_in\<close> and \<open>doc_in\<close> are dictionaries of tensors; since \<^verbatim>\<open>forward\<close>
  mutates the query's attention mask, they hold references into the store. \<open>load\<close> reads
  a dictionary of references for the encoder, \<open>getitem\<close> is \<^verbatim>\<open>d[k]\<close>.
\<close>

type_synonym inputs = "string \<rightharpoonup> ref"

definition load :: "heap \<Rightarrow> inputs \<Rightarrow> features" where
  "load h d = (\<lambda>k. map_option h (d k))"

definition getitem :: "inputs \<Rightarrow> string \<Rightarrow> error + ref" where
  "getitem d k = (case d k of None \<Rightarrow> Inl (KeyError k) | Some r \<Rightarrow> Inr r)"

text \<open>\<^verbatim>\<open>torch.ones_like(qry_input_ids, dtype=torch.float32).unsqueeze(2)\<close>.\<close>

definition ones_like :: "int list list \<Rightarrow> real list list" where
  "ones_like t = map (map (\<lambda>_. 1)) t"

text \<open>
  Lines 147 to 154: \<^verbatim>\<open>torch.arange(scores.size(0)) * self.train_group_size\<close>.
\<close>

definition ranking_labels :: "nat \<Rightarrow> real list list \<Rightarrow> int list" where
  "ranking_labels group_size scores = map (\<lambda>i. int i * int group_size) [0..<length scores]"

text \<open>
  \<^verbatim>\<open>CrossEntropyLoss(reduction='mean')\<close> on class scores and class indices: the mean over
  the rows of minus the log-softmax of the row at its label. A label outside the classes
  raises; the mean over no row is \<^verbatim>\<open>nan\<close>. The labels of \<^verbatim>\<open>forward\<close> are never
  negative, so \<^verbatim>\<open>ignore_index\<close> plays no part.
\<close>

definition log_softmax_at :: "real list \<Rightarrow> nat \<Rightarrow> real" where
  "log_softmax_at row l = row ! l - ln (sum_list (map exp row))"

definition cross_entropy :: "real list list \<Rightarrow> int list \<Rightarrow> error + real" where
  "cross_entropy scores labels =
     (if scores = [] then Inl NotFinite
      else if list_ex (\<lambda>(row, l). l < 0 \<or> int (length row) \<le> l) (zip scores labels)
      then Inl IndexError
      else Inr (sum_list (map2 (\<lambda>row l. - log_softmax_at row (nat l)) scores labels)
                / real (length scores)))"

text \<open>Lines 125 to 145 of \<^verbatim>\<open>forward\<close>: the score matrix, and the store it leaves.\<close>

definition forward_scores ::
  "TILDEv2 \<Rightarrow> heap \<Rightarrow> inputs \<Rightarrow> inputs \<Rightarrow> error + real list list \<times> heap" where
  "forward_scores self h qry_in doc_in =
     (case bert self (load h doc_in) of
        None \<Rightarrow> Inl BackboneError
      | Some last_hidden_state \<Rightarrow>
     (let doc_reps = map (map relu) (map (map (tok_proj self)) last_hidden_state) in
      case getitem doc_in ''input_ids'' of Inl e \<Rightarrow> Inl e | Inr doc_input_ids \<Rightarrow>
      case getitem qry_in ''input_ids'' of Inl e \<Rightarrow> Inl e | Inr qry_input_ids \<Rightarrow>
      case getitem qry_in ''attention_mask'' of Inl e \<Rightarrow> Inl e | Inr qry_attention_mask \<Rightarrow>
      case mask_sep h qry_attention_mask of Inl e \<Rightarrow> Inl e | Inr (h', _) \<Rightarrow>
     (let qry_reps = ones_like (h' qry_input_ids) in
      case compute_tok_score_cart doc_reps (h' doc_input_ids) qry_reps (h' qry_input_ids)
             (h' qry_attention_mask) of
        Inl e \<Rightarrow> Inl e
      | Inr tok_scores \<Rightarrow> Inr (tok_scores, h'))))"

text \<open>The local variable \<^verbatim>\<open>labels\<close> of \<^verbatim>\<open>forward\<close>, as a function of its arguments.\<close>

definition forward_labels :: "TILDEv2 \<Rightarrow> heap \<Rightarrow> inputs \<Rightarrow> inputs \<Rightarrow> error + int list" where
  "forward_labels self h qry_in doc_in =
     (case forward_scores self h qry_in doc_in of
        Inl e \<Rightarrow> Inl e
      | Inr (scores, h') \<Rightarrow> Inr (ranking_labels (train_group_size self) scores))"

text \<open>\<^verbatim>\<open>forward\<close> returns \<^verbatim>\<open>(loss, scores.view(-1))\<close>.\<close>

definition forward ::
  "TILDEv2 \<Rightarrow> heap \<Rightarrow> inputs \<Rightarrow> inputs \<Rightarrow> error + (real \<times> real list) \<times> heap" where
  "forward self h qry_in doc_in =
     (case forward_scores self h qry_in doc_in of
        Inl e \<Rightarrow> Inl e
      | Inr (scores, h') \<Rightarrow>
          (let labels = ranking_labels (train_group_size self) scores in
           case cross_entropy scores labels of
             Inl e \<Rightarrow> Inl e
           | Inr loss \<Rightarrow> Inr ((loss, concat scores), h')))"

text \<open>
  The end-to-end scenario: one query (token \<open>7\<close> between the classification token \<open>101\<close>
  and the separator \<open>102\<close>), a group of eight documents of which only the one at index
  \<open>3\<close> contains the query token. References \<open>0, 1, 2\<close> are the query's ids, mask and
  segment ids, references \<open>3, 4, 5\<close> the documents'. The encoder gives every document
  token the hidden vector \<open>[1]\<close>, \<open>[2]\<close>, \<open>[1]\<close>, and the projection is the sum.
\<close>

definition scenario_model :: TILDEv2 where
  "scenario_model =
     \<lparr>bert = (\<lambda>f. Some [[[1], [2], [1]], [[1], [2], [1]], [[1], [2], [1]], [[1], [2], [1]],
                         [[1], [2], [1]], [[1], [2], [1]], [[1], [2], [1]], [[1], [2], [1]]]),
      tok_proj = sum_list, train_group_size = 8\<rparr>"

definition scenario_heap :: heap where
  "scenario_heap =
     (\<lambda>_. [])(0 := [[101, 7, 102]], 1 := [[1, 1, 1]], 2 := [[0, 0, 0]],
             3 := [[101, 9, 102], [101, 9, 102], [101, 9, 102], [101, 7, 102],
                   [101, 9, 102], [101, 9, 102], [101, 9, 102], [101, 9, 102]],
             4 := [[1, 1, 1], [1, 1, 1], [1, 1, 1], [1, 1, 1],
                   [1, 1, 1], [1, 1, 1], [1, 1, 1], [1, 1, 1]],
             5 := [[0, 0, 0], [0, 0, 0], [0, 0, 0], [0, 0, 0],
                   [0, 0, 0], [0, 0, 0], [0, 0, 0], [0, 0, 0]])"

definition scenario_qry :: inputs where
  "scenario_qry = [''input_ids'' \<mapsto> 0, ''attention_mask'' \<mapsto> 1, ''token_type_ids'' \<mapsto> 2]"

definition scenario_doc :: inputs where
  "scenario_doc = [''input_ids'' \<mapsto> 3, ''attention_mask'' \<mapsto> 4, ''token_type_ids'' \<mapsto> 5]"

text \<open>A second input: two queries, each with a group of two documents.\<close>

definition two_query_model :: TILDEv2 where
  "two_query_model =
     \<lparr>bert = (\<lambda>f. Some [[[1], [2], [1]], [[1], [2], [1]], [[1], [3], [1]], [[1], [2], [1]]]),
      tok_proj = sum_list, train_group_size = 2\<rparr>"

definition two_query_heap :: heap where
  "two_query_heap =
     (\<lambda>_. [])(0 := [[101, 7, 102], [101, 9, 102]], 1 := [[1, 1, 1], [1, 1, 1]],
             2 := [[0, 0, 0], [0, 0, 0]],
             3 := [[101, 7, 102], [101, 5, 102], [101, 9, 102], [101, 5, 102]],
             4 := [[1, 1, 1], [1, 1, 1], [1, 1, 1], [1, 1, 1]],
             5 := [[0, 0, 0], [0, 0, 0], [0, 0, 0], [0, 0, 0]])"

subsection \<open>TILDE: the bi-directional loss\<close>

text \<open>
  \<open>lm_logits\<close> is the call \<^verbatim>\<open>self.bert(input_ids=..., token_type_ids=...,
  attention_mask=..., return_dict=True).logits\<close> (batch, position, vocabulary), \<open>None\<close>
  when it raises. \<^verbatim>\<open>get_stop_ids\<close> comes from the module \<^verbatim>\<open>tools\<close>, which is not part
  of the sources; the constructor takes it as an argument. It returns a set of token ids.
\<close>

record bert_tokenizer =
  vocab_size :: int

type_synonym lm_input = "int list list \<times> int list list \<times> int list list"

record TILDE =
  lm_logits :: "lm_input \<Rightarrow> real list list list option"
  tokenizer :: bert_tokenizer
  num_valid_tok :: int

definition TILDE_init ::
  "(lm_input \<Rightarrow> real list list list option) \<Rightarrow> bert_tokenizer
     \<Rightarrow> (bert_tokenizer \<Rightarrow> int fset) \<Rightarrow> TILDE" where
  "TILDE_init lm tok get_stop_ids =
     \<lparr>lm_logits = lm, tokenizer = tok,
      num_valid_tok = vocab_size tok - int (fcard (get_stop_ids tok))\<rparr>"

text \<open>The batch of \<^verbatim>\<open>training_step\<close>: the ten components, under the source's names.\<close>

record batch =
  passage_input_ids :: "int list list"
  passage_token_type_ids :: "int list list"
  passage_attention_mask :: "int list list"
  yqs :: "int list list"
  neg_yqs :: "int list list"
  query_input_ids :: "int list list"
  query_token_type_ids :: "int list list"
  query_ttention_mask :: "int list list"
  yds :: "int list list"
  neg_yds :: "int list list"

text \<open>\<^verbatim>\<open>.logits[:, 0]\<close>: the logits at the first position of every example.\<close>

definition first_position :: "real list list list \<Rightarrow> error + real list list" where
  "first_position lg = (if [] \<in> set lg then Inl IndexError else Inr (map hd lg))"

definition sigmoid :: "real \<Rightarrow> real" where
  "sigmoid x = 1 / (1 + exp (- x))"

text \<open>\<^verbatim>\<open>torch.where(y == v)[0]\<close>: the indices at which \<open>y\<close> is \<open>v\<close>, ascending.\<close>

definition where_eq :: "int list \<Rightarrow> int \<Rightarrow> nat list" where
  "where_eq y v = filter (\<lambda>j. y ! j = v) [0..<length y]"

text \<open>\<^verbatim>\<open>prob[ids]\<close> for a tensor of indices.\<close>

definition index_select :: "real list \<Rightarrow> nat list \<Rightarrow> error + real list" where
  "index_select xs ids =
     (if list_all (\<lambda>j. j < length xs) ids then Inr (map (\<lambda>j. xs ! j) ids) else Inl IndexError)"

text \<open>\<^verbatim>\<open>t[i]\<close> for a loop index \<open>i\<close>.\<close>

definition row_at :: "'a list \<Rightarrow> nat \<Rightarrow> error + 'a" where
  "row_at t i = (if i < length t then Inr (t ! i) else Inl IndexError)"

text \<open>
  The two sums of lines 65 and 72 for one example:
  \<^verbatim>\<open>torch.sum(torch.log(pos_probs))\<close> and \<^verbatim>\<open>torch.sum(torch.log(1 - neg_probs))\<close>.
\<close>

definition pos_log_sum :: "int list \<Rightarrow> real list \<Rightarrow> error + real" where
  "pos_log_sum y prob =
     (case index_select prob (where_eq y 1) of
        Inl e \<Rightarrow> Inl e
      | Inr pos_probs \<Rightarrow> Inr (sum_list (map ln pos_probs)))"

definition neg_log_sum :: "int list \<Rightarrow> real list \<Rightarrow> error + real" where
  "neg_log_sum y prob =
     (case index_select prob (where_eq y 0) of
        Inl e \<Rightarrow> Inl e
      | Inr neg_probs \<Rightarrow> Inr (sum_list (map (\<lambda>p. ln (1 - p)) neg_probs)))"

definition example_log_sum :: "int list \<Rightarrow> real list \<Rightarrow> error + real" where
  "example_log_sum y prob =
     (case pos_log_sum y prob of
        Inl e \<Rightarrow> Inl e
      | Inr a \<Rightarrow> (case neg_log_sum y prob of Inl e \<Rightarrow> Inl e | Inr b \<Rightarrow> Inr (a + b)))"

text \<open>
  The loop of lines 57 to 72 over the indices still to visit, with the two accumulators
  \<^verbatim>\<open>passage_pos_loss\<close> and \<^verbatim>\<open>query_pos_loss\<close>.
\<close>

fun bdqlm_loop ::
  "int list list \<Rightarrow> real list list \<Rightarrow> int list list \<Rightarrow> real list list \<Rightarrow> nat list
     \<Rightarrow> real \<times> real \<Rightarrow> error + real \<times> real" where
  "bdqlm_loop yq pp yd qp [] acc = Inr acc"
| "bdqlm_loop yq pp yd qp (i # rest) (passage_pos_loss, query_pos_loss) =
     (case row_at yq i of Inl e \<Rightarrow> Inl e | Inr yqi \<Rightarrow>
      case row_at pp i of Inl e \<Rightarrow> Inl e | Inr ppi \<Rightarrow>
      case example_log_sum yqi ppi of Inl e \<Rightarrow> Inl e | Inr ps \<Rightarrow>
      case row_at yd i of Inl e \<Rightarrow> Inl e | Inr ydi \<Rightarrow>
      case row_at qp i of Inl e \<Rightarrow> Inl e | Inr qpi \<Rightarrow>
      case example_log_sum ydi qpi of Inl e \<Rightarrow> Inl e | Inr qs \<Rightarrow>
        bdqlm_loop yq pp yd qp rest (passage_pos_loss - ps, query_pos_loss - qs))"

text \<open>
  \<^verbatim>\<open>training_step\<close>. With an empty batch both accumulators are still the Python integer
  \<open>0\<close> at line 74 and a zero divisor raises; otherwise they are tensors and a zero
  divisor gives a non-finite float. The call \<^verbatim>\<open>self.log("loss", loss)\<close> only reports the
  value and is left out.
\<close>

definition training_step :: "TILDE \<Rightarrow> batch \<Rightarrow> error + real" where
  "training_step self b =
     (case lm_logits self
             (passage_input_ids b, passage_token_type_ids b, passage_attention_mask b) of
        None \<Rightarrow> Inl BackboneError
      | Some pl \<Rightarrow>
     (case first_position pl of Inl e \<Rightarrow> Inl e | Inr passage_outputs \<Rightarrow>
     (case lm_logits self (query_input_ids b, query_token_type_ids b, query_ttention_mask b) of
        None \<Rightarrow> Inl BackboneError
      | Some ql \<Rightarrow>
     (case first_position ql of Inl e \<Rightarrow> Inl e | Inr query_outputs \<Rightarrow>
     (let batch_size = length (yqs b);
          batch_passage_prob = map (map sigmoid) passage_outputs;
          batch_query_prob = map (map sigmoid) query_outputs
      in case bdqlm_loop (yqs b) batch_passage_prob (yds b) batch_query_prob
                [0..<batch_size] (0, 0) of
           Inl e \<Rightarrow> Inl e
         | Inr (passage_pos_loss, query_pos_loss) \<Rightarrow>
             if num_valid_tok self * 2 = 0
             then Inl (if batch_size = 0 then ZeroDivisionError else NotFinite)
             else Inr ((passage_pos_loss + query_pos_loss)
                        / of_int (num_valid_tok self * 2)))))))"

text \<open>
  The loss of one example and one side in the words of the specification: minus the sum
  of \<open>ln p\<close> over the indices labelled \<open>1\<close>, minus the sum of \<open>ln (1 - p)\<close> over the
  indices labelled \<open>0\<close>, with \<open>p\<close> the sigmoid of the logit.
\<close>

definition spec_example_loss :: "int list \<Rightarrow> real list \<Rightarrow> real" where
  "spec_example_loss y logits =
     - (\<Sum>j | j < length y \<and> y ! j = 1. ln (sigmoid (logits ! j)))
     - (\<Sum>j | j < length y \<and> y ! j = 0. ln (1 - sigmoid (logits ! j)))"

definition tiny_batch :: batch where
  "tiny_batch = \<lparr>passage_input_ids = [[101, 7, 102]], passage_token_type_ids = [[0, 0, 0]],
     passage_attention_mask = [[1, 1, 1]], yqs = [[1, 0]], neg_yqs = [[0, 1]],
     query_input_ids = [[101, 9, 102]], query_token_type_ids = [[0, 0, 0]],
     query_ttention_mask = [[1, 1, 1]], yds = [[0, 0]], neg_yds = [[1, 1]]\<rparr>"

section \<open>Properties\<close>

subsection \<open>\<^verbatim>\<open>encode\<close>\<close>

text \<open>
  C7. \<^verbatim>\<open>encode\<close> fails with the assertion exactly when one of the three required keys
  is missing from the features. When all three are present the wrapper raises nothing of
  its own: the result is the failure of the encoder call, if it fails, and otherwise the
  rectified projection of every hidden vector.
\<close>

theorem encode_assertion_iff_missing_key:
  "(encode self features = Inl AssertionError) =
     (features ''input_ids'' = None \<or> features ''attention_mask'' = None
        \<or> features ''token_type_ids'' = None)
   \<and> (features ''input_ids'' \<noteq> None \<and> features ''attention_mask'' \<noteq> None
        \<and> features ''token_type_ids'' \<noteq> None \<longrightarrow>
      encode self features =
        (case bert self features of
           None \<Rightarrow> Inl BackboneError
         | Some h \<Rightarrow> Inr (map (map (\<lambda>v. max 0 (tok_proj self v))) h)))"
  by (auto simp: encode_def required_keys_def relu_def Let_def split: option.splits)

theorem encode_assertion_iff_missing_key_witness:
  "encode \<lparr>bert = (\<lambda>f. Some [[[1, 2], [3, - 5]]]), tok_proj = (\<lambda>v. v ! 0 + v ! 1),
            train_group_size = 8\<rparr>
     [''input_ids'' \<mapsto> [[101, 102]], ''attention_mask'' \<mapsto> [[1, 1]],
      ''token_type_ids'' \<mapsto> [[0, 0]]]
   = Inr [[3, 0]]
   \<and> encode \<lparr>bert = (\<lambda>f. Some [[[1, 2], [3, - 5]]]), tok_proj = (\<lambda>v. v ! 0 + v ! 1),
            train_group_size = 8\<rparr>
     [''input_ids'' \<mapsto> [[101, 102]], ''attention_mask'' \<mapsto> [[1, 1]]]
   = Inl AssertionError"
  using encode_assertion_iff_missing_key
    [of "\<lparr>bert = (\<lambda>f. Some [[[1, 2], [3, - 5]]]), tok_proj = (\<lambda>v. v ! 0 + v ! 1),
            train_group_size = 8\<rparr>"
        "[''input_ids'' \<mapsto> [[101, 102]], ''attention_mask'' \<mapsto> [[1, 1]],
          ''token_type_ids'' \<mapsto> [[0, 0]]]"]
    encode_assertion_iff_missing_key
    [of "\<lparr>bert = (\<lambda>f. Some [[[1, 2], [3, - 5]]]), tok_proj = (\<lambda>v. v ! 0 + v ! 1),
            train_group_size = 8\<rparr>"
        "[''input_ids'' \<mapsto> [[101, 102]], ''attention_mask'' \<mapsto> [[1, 1]]]"]
  by simp

subsection \<open>The trainer\<close>

text \<open>
  C8. With no training dataset configured, \<^verbatim>\<open>get_train_dataloader\<close> raises the
  \<^verbatim>\<open>ValueError\<close> at once: the call itself returns the error, and it has performed
  no action, neither the sampler lookup nor the construction of a loader.
\<close>

theorem get_train_dataloader_no_dataset:
  "train_dataset self = None \<Longrightarrow>
     get_train_dataloader self
       = (Inl (ValueError ''Trainer: training requires a train_dataset.''), [])"
  by (simp add: get_train_dataloader_def)

theorem get_train_dataloader_no_dataset_witness:
  "get_train_dataloader
     \<lparr>args = \<lparr>output_dir = ''out'', train_batch_size = 4, dataloader_num_workers = 0\<rparr>,
      has_tokenizer = True, is_world_process_zero = True, train_dataset = None,
      get_train_sampler = (\<lambda>ds. ds)\<rparr>
   = (Inl (ValueError ''Trainer: training requires a train_dataset.''), [])"
  using get_train_dataloader_no_dataset
    [of "\<lparr>args = \<lparr>output_dir = ''out'', train_batch_size = 4, dataloader_num_workers = 0\<rparr>,
      has_tokenizer = True, is_world_process_zero = True, train_dataset = None,
      get_train_sampler = (\<lambda>ds. ds)\<rparr>"]
  by simp

text \<open>
  C9, as stated, fails: a worker that is not world process zero and calls
  \<^verbatim>\<open>_save\<close> writes the model weights and the training arguments, and does not write
  the tokenizer files.
\<close>

theorem trainer_save_not_gated_counterexample:
  "\<not> is_world_process_zero
       \<lparr>args = \<lparr>output_dir = ''out'', train_batch_size = 4, dataloader_num_workers = 0\<rparr>,
        has_tokenizer = True, is_world_process_zero = False, train_dataset = None,
        get_train_sampler = (\<lambda>ds. ds)\<rparr>
   \<and> trainer_save
       \<lparr>args = \<lparr>output_dir = ''out'', train_batch_size = 4, dataloader_num_workers = 0\<rparr>,
        has_tokenizer = True, is_world_process_zero = False, train_dataset = None,
        get_train_sampler = (\<lambda>ds. ds)\<rparr> None
     = [Makedirs ''out'', ModelSavePretrained ''out'',
        TorchSaveArgs ''out/training_args.bin'']"
  by (simp add: trainer_save_def path_join_def Let_def)

text \<open>
  C9, amended. Every call of \<^verbatim>\<open>_save\<close>, by whichever worker, writes the model
  weights to the output directory and the training arguments to
  \<^verbatim>\<open>training_args.bin\<close> inside it; the tokenizer files are written exactly when a
  tokenizer is configured and the worker is world process zero. The output directory is
  the argument when one is given, the configured one otherwise.
\<close>

theorem trainer_save_writes:
  "ModelSavePretrained (case d of Some x \<Rightarrow> x | None \<Rightarrow> output_dir (args self))
     \<in> set (trainer_save self d)
   \<and> TorchSaveArgs (path_join (case d of Some x \<Rightarrow> x | None \<Rightarrow> output_dir (args self))
                      ''training_args.bin'')
     \<in> set (trainer_save self d)
   \<and> (TokenizerSavePretrained (case d of Some x \<Rightarrow> x | None \<Rightarrow> output_dir (args self))
        \<in> set (trainer_save self d))
     = (has_tokenizer self \<and> is_world_process_zero self)
   \<and> (\<exists>out. set (trainer_save self d) \<subseteq>
         {Makedirs out, ModelSavePretrained out, TokenizerSavePretrained out,
          TorchSaveArgs (path_join out ''training_args.bin'')})"
  by (auto simp: trainer_save_def Let_def split: option.splits)

subsection \<open>\<^verbatim>\<open>mask_sep\<close>\<close>

lemma scatter_sep:
  "scatter_dim1 m (sep_pos m) (zeros_like (sep_pos m)) =
     (if list_all sep_in_range m
      then Inr (map (\<lambda>row. row[nat (sum_list row - 1) := 0]) m)
      else Inl RuntimeError)"
  by (induction m) (auto simp: sep_pos_def zeros_like_def sep_in_range_def)

lemma mask_sep_eq:
  "mask_sep h r =
     (if list_all sep_in_range (h r)
      then Inr (h(r := map (\<lambda>row. row[nat (sum_list row - 1) := 0]) (h r)), r)
      else Inl RuntimeError)"
  by (simp add: mask_sep_def Let_def scatter_sep)

lemma sum_list_01_bounds:
  "set row \<subseteq> {0, 1} \<Longrightarrow> 0 \<le> sum_list row \<and> sum_list row \<le> int (length row)"
  by (induction row) auto

lemma sum_list_01_pos:
  "set row \<subseteq> {0, 1} \<Longrightarrow> \<exists>x\<in>set row. x \<noteq> 0 \<Longrightarrow> 1 \<le> sum_list (row :: int list)"
  by (induction row) (use sum_list_01_bounds in fastforce)+

text \<open>
  C3, as stated, fails: on a mask with a row that attends to nothing the separator index is
  \<open>-1\<close>, \<^verbatim>\<open>scatter_\<close> raises, and no mask is returned.
\<close>

theorem mask_sep_zero_row_counterexample:
  "mask_sep (\<lambda>_. [[1, 1, 0], [0, 0, 0]]) 0 = Inl RuntimeError"
  by (simp add: mask_sep_def sep_pos_def zeros_like_def)

text \<open>
  C3, amended. For every mask in which the index \<open>sum row - 1\<close> of every row lies inside
  the row (so for every 0/1 mask whose rows each attend to at least one position),
  \<^verbatim>\<open>mask_sep\<close> returns the reference it was given; in the store only that tensor has
  changed; it has kept its shape; and in each row the entry at \<open>sum row - 1\<close> is \<open>0\<close>
  and every other entry is what it was.
\<close>

theorem mask_sep_zeroes_separator:
  assumes "\<forall>row\<in>set (h r). 1 \<le> sum_list row \<and> sum_list row \<le> int (length row)"
  shows "\<exists>h'. mask_sep h r = Inr (h', r)
           \<and> (\<forall>r'. r' \<noteq> r \<longrightarrow> h' r' = h r')
           \<and> length (h' r) = length (h r)
           \<and> (\<forall>i<length (h r). length (h' r ! i) = length (h r ! i)
                \<and> (\<forall>j<length (h r ! i).
                      h' r ! i ! j = (if int j = sum_list (h r ! i) - 1 then 0 else h r ! i ! j)))"
proof -
  from assms have ok: "list_all sep_in_range (h r)"
    by (simp add: list_all_iff sep_in_range_def)
  let ?m' = "map (\<lambda>row. row[nat (sum_list row - 1) := 0]) (h r)"
  have eq: "mask_sep h r = Inr (h(r := ?m'), r)"
    using ok by (simp add: mask_sep_eq)
  have cells: "\<forall>i<length (h r). length (?m' ! i) = length (h r ! i)
                \<and> (\<forall>j<length (h r ! i).
                      ?m' ! i ! j = (if int j = sum_list (h r ! i) - 1 then 0 else h r ! i ! j))"
  proof (intro allI impI conjI)
    fix i assume i: "i < length (h r)"
    show "length (?m' ! i) = length (h r ! i)" using i by simp
    fix j assume j: "j < length (h r ! i)"
    from i assms have "1 \<le> sum_list (h r ! i)" by (meson nth_mem)
    then have "(int j = sum_list (h r ! i) - 1) = (j = nat (sum_list (h r ! i) - 1))"
      by linarith
    then show "?m' ! i ! j = (if int j = sum_list (h r ! i) - 1 then 0 else h r ! i ! j)"
      using i j by (simp add: nth_list_update)
  qed
  show ?thesis
    using eq cells by (intro exI[of _ "h(r := ?m')"]) simp
qed

theorem mask_sep_zeroes_separator_witness:
  "\<exists>h'. mask_sep (\<lambda>_. [[1, 1, 1, 0], [1, 1, 0, 0]]) 0 = Inr (h', 0)
      \<and> h' 0 = [[1, 1, 0, 0], [1, 0, 0, 0]] \<and> h' 1 = [[1, 1, 1, 0], [1, 1, 0, 0]]"
proof -
  have "\<forall>row\<in>set ((\<lambda>_. [[1, 1, 1, 0], [1, 1, 0, 0]]) (0::nat)).
          1 \<le> sum_list row \<and> sum_list row \<le> int (length row)"
    by simp
  from mask_sep_zeroes_separator [OF this]
  obtain h' where "mask_sep (\<lambda>_. [[1, 1, 1, 0], [1, 1, 0, 0]]) 0 = Inr (h', 0)"
    by blast
  moreover from this have "h' = (\<lambda>_. [[1, 1, 1, 0], [1, 1, 0, 0]])(0 := [[1, 1, 0, 0], [1, 0, 0, 0]])"
    by (simp add: mask_sep_def sep_pos_def zeros_like_def)
  ultimately show ?thesis by simp
qed

text \<open>
  C10. A row that sums to \<open>0\<close> gives the separator index \<open>-1\<close>, and a mask with such a
  row makes \<^verbatim>\<open>mask_sep\<close> raise: the index is out of bounds for \<^verbatim>\<open>scatter_\<close>. A 0/1 row
  with at least one attended position gives an index inside the row. Hence on a 0/1 mask
  \<^verbatim>\<open>mask_sep\<close> returns exactly when every row attends to at least one position.
\<close>

theorem mask_sep_needs_attended_position:
  "(row \<in> set (h r) \<and> sum_list row = 0 \<longrightarrow>
      sep_pos [row] = [[- 1]] \<and> mask_sep h r = Inl RuntimeError)
   \<and> (set row \<subseteq> {0, 1} \<and> (\<exists>x\<in>set row. x \<noteq> 0) \<longrightarrow>
      0 \<le> sum_list row - 1 \<and> sum_list row - 1 < int (length row))
   \<and> ((\<forall>row\<in>set (h r). set row \<subseteq> {0, 1}) \<longrightarrow>
      (\<exists>h'. mask_sep h r = Inr (h', r)) = (\<forall>row\<in>set (h r). \<exists>x\<in>set row. x \<noteq> 0))"
proof (intro conjI impI)
  assume a: "row \<in> set (h r) \<and> sum_list row = 0"
  then show "sep_pos [row] = [[- 1]]" by (simp add: sep_pos_def)
  from a have "\<not> sep_in_range row" by (simp add: sep_in_range_def)
  with a have "\<not> list_all sep_in_range (h r)" by (auto simp: list_all_iff)
  then show "mask_sep h r = Inl RuntimeError" by (simp add: mask_sep_eq)
next
  assume a: "set row \<subseteq> {0, 1} \<and> (\<exists>x\<in>set row. x \<noteq> 0)"
  then have "1 \<le> sum_list row" using sum_list_01_pos by blast
  then show "0 \<le> sum_list row - 1" by simp
  from a show "sum_list row - 1 < int (length row)"
    using sum_list_01_bounds [of row] by simp
next
  assume b: "\<forall>row\<in>set (h r). set row \<subseteq> {0, 1}"
  have "list_all sep_in_range (h r) = (\<forall>row\<in>set (h r). \<exists>x\<in>set row. x \<noteq> 0)"
  proof
    assume ok: "list_all sep_in_range (h r)"
    show "\<forall>row\<in>set (h r). \<exists>x\<in>set row. x \<noteq> 0"
    proof
      fix row assume m: "row \<in> set (h r)"
      with ok have "1 \<le> sum_list row" by (simp add: list_all_iff sep_in_range_def)
      then have "sum_list row \<noteq> 0" by simp
      then show "\<exists>x\<in>set row. x \<noteq> 0" by (induction row) auto
    qed
  next
    assume nz: "\<forall>row\<in>set (h r). \<exists>x\<in>set row. x \<noteq> 0"
    show "list_all sep_in_range (h r)"
      unfolding list_all_iff sep_in_range_def
      using b nz sum_list_01_pos sum_list_01_bounds by blast
  qed
  then show "(\<exists>h'. mask_sep h r = Inr (h', r)) = (\<forall>row\<in>set (h r). \<exists>x\<in>set row. x \<noteq> 0)"
    by (auto simp: mask_sep_eq)
qed

theorem mask_sep_needs_attended_position_witness:
  "sep_pos [[0, 0, 0]] = [[- 1]]
   \<and> mask_sep (\<lambda>_. [[1, 1, 0], [0, 0, 0]]) 0 = Inl RuntimeError
   \<and> (0::int) \<le> sum_list [1, 1, 0] - 1 \<and> sum_list [1, 1, 0] - 1 < int (length [1, 1, 0 :: int])
   \<and> (\<exists>h'. mask_sep (\<lambda>_. [[1, 1, 0], [1, 0, 0]]) 0 = Inr (h', 0))"
  using mask_sep_needs_attended_position [of "[0, 0, 0]" "\<lambda>_. [[1, 1, 0], [0, 0, 0]]" 0]
    mask_sep_needs_attended_position [of "[1, 1, 0]" "\<lambda>_. [[1, 1, 0], [1, 0, 0]]" 0]
  by simp

subsection \<open>\<^verbatim>\<open>compute_tok_score_cart\<close>\<close>

lemma take_drop_concat:
  "\<forall>r\<in>set xss. length r = n \<Longrightarrow> i < length xss \<Longrightarrow> take n (drop (i * n) (concat xss)) = xss ! i"
proof (induction xss arbitrary: i)
  case Nil then show ?case by simp
next
  case (Cons r xss)
  show ?case
  proof (cases i)
    case 0 with Cons.prems show ?thesis by simp
  next
    case (Suc k)
    with Cons.prems have "take n (drop (k * n) (concat xss)) = xss ! k"
      by (intro Cons.IH) auto
    with Suc Cons.prems show ?thesis by (simp add: add.commute)
  qed
qed

lemma blocks_concat:
  assumes "\<forall>r\<in>set xss. length r = n"
  shows "blocks (length xss) n (concat xss) = xss"
  unfolding blocks_def
  by (rule nth_equalityI) (simp_all add: take_drop_concat[OF assms])

lemma blocks_map: "blocks n k (map f xs) = map (map f) (blocks n k xs)"
  by (simp add: blocks_def take_map drop_map)

lemma rect_shape: "rect t \<Longrightarrow> blocks (fst (shape2 t)) (snd (shape2 t)) (concat t) = t"
  using blocks_concat[of t "snd (shape2 t)"] by (simp add: rect_def shape2_def)

lemma scores_no_masking_eq:
  assumes "rect qry_reps" "rect doc_reps"
  shows "view4 (shape2 qry_reps) (shape2 doc_reps)
           (matmul_col_row (view_col qry_reps) (view_col doc_reps))
         = map (map (\<lambda>x. map (map (\<lambda>y. x * y)) doc_reps)) qry_reps"
proof -
  have "map (blocks (fst (shape2 doc_reps)) (snd (shape2 doc_reps)))
          (matmul_col_row (view_col qry_reps) (view_col doc_reps))
        = map (\<lambda>x. map (map (\<lambda>y. x * y)) doc_reps) (concat qry_reps)"
    using rect_shape[OF assms(2)]
    by (simp add: matmul_col_row_def view_col_def blocks_map)
  then show ?thesis
    using rect_shape[OF assms(1)] by (simp add: view4_def blocks_map)
qed


lemma fold_max_ge: "(x::real) \<le> fold max xs x"
proof (induction xs arbitrary: x)
  case Nil show ?case by simp
next
  case (Cons a xs)
  have "x \<le> max a x" by simp
  also have "\<dots> \<le> fold max xs (max a x)" by (rule Cons.IH)
  finally show ?case by simp
qed

lemma max_list_gate_nonneg:
  assumes "0 \<le> x" "\<forall>w\<in>set dr. 0 \<le> w" "dr \<noteq> []" "di \<noteq> []"
  shows "0 \<le> max_list (map2 (*) (map (\<lambda>y. x * y) dr) (map (\<lambda>d. if d = q then 1 else 0) di))"
proof -
  obtain w dr' where dr: "dr = w # dr'" using assms(3) by (cases dr) auto
  obtain d di' where di: "di = d # di'" using assms(4) by (cases di) auto
  have "0 \<le> x * w * (if d = q then 1 else 0)" using assms(1,2) dr by simp
  also have "\<dots> \<le> max_list (map2 (*) (map (\<lambda>y. x * y) dr) (map (\<lambda>d. if d = q then 1 else 0) di))"
    unfolding dr di by (simp add: fold_max_ge del: mult_nonneg_nonneg)
  finally show ?thesis .
qed

lemma stage_scores:
  "map (map (map max_list)) (mul4 (map (map F) qr) (map (map G) qi))
     = map2 (map2 (\<lambda>x q. map max_list (map2 (map2 (*)) (F x) (G q)))) qr qi"
  by (auto simp: mul4_def zip_map_map comp_def split_beta)

lemma gate_row_good:
  assumes "0 \<le> x" "\<forall>dr\<in>set doc_reps. dr \<noteq> [] \<and> (\<forall>w\<in>set dr. 0 \<le> w)"
    "[] \<notin> set doc_ids" "length doc_ids = length doc_reps"
  shows "good_row (length doc_reps)
           (map max_list (map2 (map2 (*)) (map (map (\<lambda>y. x * y)) doc_reps)
                                       (map (map (\<lambda>d. if d = q then 1 else 0)) doc_ids)))"
  unfolding good_row_def
proof (intro conjI ballI)
  show "length (map max_list (map2 (map2 (*)) (map (map (\<lambda>y. x * y)) doc_reps)
                  (map (map (\<lambda>d. if d = q then 1 else 0)) doc_ids))) = length doc_reps"
    using assms(4) by simp
next
  fix s
  assume "s \<in> set (map max_list (map2 (map2 (*)) (map (map (\<lambda>y. x * y)) doc_reps)
                  (map (map (\<lambda>d. if d = q then 1 else 0)) doc_ids)))"
  then obtain dr di where z: "(dr, di) \<in> set (zip doc_reps doc_ids)"
    and s: "s = max_list (map2 (*) (map (\<lambda>y. x * y) dr) (map (\<lambda>d. if d = q then 1 else 0) di))"
    by (auto simp: zip_map_map)
  from z have "dr \<in> set doc_reps" "di \<in> set doc_ids"
    by (auto dest: set_zip_leftD set_zip_rightD)
  with assms have "\<forall>w\<in>set dr. 0 \<le> w" "dr \<noteq> []" "di \<noteq> []" by auto
  with assms(1) show "0 \<le> s" unfolding s by (rule max_list_gate_nonneg)
qed

lemma sum_rows_good:
  "\<forall>r\<in>set rows. good_row d r \<Longrightarrow> good_row d (foldr (map2 (+)) rows (replicate d 0))"
proof (induction rows)
  case Nil show ?case by (simp add: good_row_def)
next
  case (Cons r rows)
  then have a: "good_row d r" and b: "good_row d (foldr (map2 (+)) rows (replicate d 0))"
    by auto
  have "0 \<le> s" if "s \<in> set (map2 (+) r (foldr (map2 (+)) rows (replicate d 0)))" for s
  proof -
    from that obtain u v where "(u, v) \<in> set (zip r (foldr (map2 (+)) rows (replicate d 0)))"
      and s: "s = u + v" by auto
    then have "u \<in> set r" "v \<in> set (foldr (map2 (+)) rows (replicate d 0))"
      by (auto dest: set_zip_leftD set_zip_rightD)
    with a b show ?thesis unfolding s good_row_def by simp
  qed
  moreover have "length (map2 (+) r (foldr (map2 (+)) rows (replicate d 0))) = d"
    using a b by (simp add: good_row_def)
  ultimately show ?case by (simp add: good_row_def)
qed


lemma tensor_shape_rect: "tensor_shape n k t \<Longrightarrow> rect t"
  by (cases t) (auto simp: tensor_shape_def rect_def shape2_def)

lemma tensor_shape_shape2:
  "tensor_shape n k a \<Longrightarrow> tensor_shape n k b \<Longrightarrow> shape2 a = shape2 b"
  by (cases a; cases b) (auto simp: tensor_shape_def shape2_def)

lemma mul_mask_rows_good:
  assumes "\<forall>rows\<in>set sc. \<forall>r\<in>set rows. good_row d r"
    and "\<forall>arow\<in>set am. \<forall>a\<in>set arow. 0 \<le> a"
  shows "\<forall>rows\<in>set (mul_mask sc am). \<forall>r\<in>set rows. good_row d r"
proof (intro ballI)
  fix rows r
  assume "rows \<in> set (mul_mask sc am)" and r: "r \<in> set rows"
  then obtain srows arow where z: "(srows, arow) \<in> set (zip sc am)"
    and rows: "rows = map2 (\<lambda>row a. map (\<lambda>s. s * of_int a) row) srows arow"
    by (auto simp: mul_mask_def)
  from r rows obtain row a where z2: "(row, a) \<in> set (zip srows arow)"
    and r': "r = map (\<lambda>s. s * of_int a) row"
    by auto
  from z z2 have "srows \<in> set sc" "row \<in> set srows" "arow \<in> set am" "a \<in> set arow"
    by (auto dest: set_zip_leftD set_zip_rightD)
  with assms have "good_row d row" "0 \<le> a" by auto
  then show "good_row d r" unfolding r' good_row_def by simp
qed

lemma scores_rows_good:
  assumes "\<forall>r\<in>set qry_reps. \<forall>x\<in>set r. 0 \<le> x"
    and "\<forall>x. 0 \<le> x \<longrightarrow> (\<forall>q. good_row d (R x q))"
  shows "\<forall>rows\<in>set (map2 (map2 R) qry_reps qry_ids). \<forall>r\<in>set rows. good_row d r"
proof (intro ballI)
  fix rows r
  assume "rows \<in> set (map2 (map2 R) qry_reps qry_ids)" and r: "r \<in> set rows"
  then obtain qr qi where z: "(qr, qi) \<in> set (zip qry_reps qry_ids)"
    and rows: "rows = map2 R qr qi"
    by auto
  from r rows obtain x q where z2: "(x, q) \<in> set (zip qr qi)" and r': "r = R x q"
    by auto
  from z z2 have "qr \<in> set qry_reps" "x \<in> set qr"
    by (auto dest: set_zip_leftD)
  with assms(1) have "0 \<le> x" by auto
  with assms(2) show "good_row d r" unfolding r' by simp
qed

lemma compute_tok_score_cart_good:
  assumes q: "tensor_shape Q LQ qry_reps" "tensor_shape Q LQ qry_input_ids"
      "tensor_shape Q LQ qry_attention_mask"
    and d: "tensor_shape D LD doc_reps" "tensor_shape D LD doc_input_ids" "0 < LD"
    and nn: "\<forall>r\<in>set qry_reps. \<forall>x\<in>set r. 0 \<le> x" "\<forall>r\<in>set doc_reps. \<forall>w\<in>set r. 0 \<le> w"
      "\<forall>r\<in>set qry_attention_mask. \<forall>a\<in>set r. 0 \<le> a"
  shows "\<exists>scores. compute_tok_score_cart doc_reps doc_input_ids qry_reps qry_input_ids
                     qry_attention_mask = Inr scores
           \<and> length scores = Q \<and> (\<forall>row\<in>set scores. good_row D row)"
proof -
  let ?R = "\<lambda>x q. map max_list (map2 (map2 (*)) (map (map (\<lambda>y. x * y)) doc_reps)
                      (map (map (\<lambda>d. if d = q then 1 else 0)) doc_input_ids))"
  let ?sc = "map2 (map2 ?R) qry_reps qry_input_ids"
  let ?res = "sum_dim1 (length doc_reps) (map (drop 1) (mul_mask ?sc qry_attention_mask))"
  have s1: "shape2 qry_reps = shape2 qry_input_ids" "shape2 doc_reps = shape2 doc_input_ids"
    "shape2 qry_attention_mask = shape2 qry_reps"
    using q d by (auto intro: tensor_shape_shape2)
  have ne: "[] \<notin> set doc_reps" "[] \<notin> set doc_input_ids"
    using d by (auto simp: tensor_shape_def)
  have len: "length doc_reps = D" "length doc_input_ids = D" "length qry_reps = Q"
    "length qry_input_ids = Q" "length qry_attention_mask = Q"
    using q d by (auto simp: tensor_shape_def)
  have snm: "view4 (shape2 qry_reps) (shape2 doc_reps)
               (matmul_col_row (view_col qry_reps) (view_col doc_reps))
             = map (map (\<lambda>x. map (map (\<lambda>y. x * y)) doc_reps)) qry_reps"
    using q(1) d(1) by (intro scores_no_masking_eq tensor_shape_rect)
  have eq: "compute_tok_score_cart doc_reps doc_input_ids qry_reps qry_input_ids
              qry_attention_mask = Inr ?res"
    unfolding compute_tok_score_cart_def Let_def snm exact_match_def stage_scores
    using s1 ne by simp
  have R: "\<forall>x. 0 \<le> x \<longrightarrow> (\<forall>q. good_row D (?R x q))"
    using gate_row_good [of _ doc_reps doc_input_ids] nn(2) ne len by auto
  have "\<forall>rows\<in>set ?sc. \<forall>r\<in>set rows. good_row D r"
    using nn(1) R by (rule scores_rows_good)
  then have "\<forall>rows\<in>set (mul_mask ?sc qry_attention_mask). \<forall>r\<in>set rows. good_row D r"
    using nn(3) by (rule mul_mask_rows_good)
  then have "\<forall>rows\<in>set (map (drop 1) (mul_mask ?sc qry_attention_mask)). \<forall>r\<in>set rows. good_row D r"
    by (auto dest: in_set_dropD)
  then have "\<forall>row\<in>set ?res. good_row D row"
    unfolding sum_dim1_def len by (auto intro: sum_rows_good)
  moreover have "length ?res = Q"
    by (simp add: sum_dim1_def mul_mask_def len)
  ultimately show ?thesis using eq by blast
qed

lemma compute_tok_score_cart_length:
  assumes "compute_tok_score_cart doc_reps doc_input_ids qry_reps qry_input_ids
             qry_attention_mask = Inr scores"
  shows "length scores = length qry_input_ids"
proof -
  have "length qry_reps = length qry_input_ids" "length qry_attention_mask = length qry_reps"
    using assms
    by (auto simp: compute_tok_score_cart_def Let_def shape2_def split: if_splits)
  then show ?thesis
    using assms
    by (auto simp: compute_tok_score_cart_def Let_def sum_dim1_def mul_mask_def mul4_def
        view4_def blocks_def exact_match_def shape2_def split: if_splits)
qed

text \<open>
  C5. At every index combination (query example \<open>q\<close>, query position \<open>i\<close>, document
  example \<open>d\<close>, document position \<open>j\<close>) the exact-match gate built by
  \<^verbatim>\<open>compute_tok_score_cart\<close> is \<open>1\<close> when the query token id equals the document token
  id, and \<open>0\<close> when the two differ.
\<close>

theorem exact_match_gate:
  assumes "q < length qry_input_ids" "i < length (qry_input_ids ! q)"
    "d < length doc_input_ids" "j < length (doc_input_ids ! d)"
  shows "exact_match qry_input_ids doc_input_ids ! q ! i ! d ! j
         = (if qry_input_ids ! q ! i = doc_input_ids ! d ! j then 1 else 0)"
  using assms by (auto simp: exact_match_def)

theorem exact_match_gate_witness:
  "exact_match [[101, 7, 9]] [[101, 9], [7, 7]] ! 0 ! 1 ! 1 ! 0 = 1
   \<and> exact_match [[101, 7, 9]] [[101, 9], [7, 7]] ! 0 ! 1 ! 0 ! 1 = 0"
  using exact_match_gate [of 0 "[[101, 7, 9]]" 1 1 "[[101, 9], [7, 7]]" 0]
    exact_match_gate [of 0 "[[101, 7, 9]]" 1 0 "[[101, 9], [7, 7]]" 1]
  by simp

lemma ones_like_shape: "tensor_shape n k t \<Longrightarrow> tensor_shape n k (ones_like t)"
  by (auto simp: tensor_shape_def ones_like_def)

lemma ones_like_nonneg: "\<forall>r\<in>set (ones_like t). \<forall>x\<in>set r. 0 \<le> x"
  by (auto simp: ones_like_def)

lemma compute_tok_score_cart_empty_positions:
  assumes "[] \<in> set doc_reps"
  shows "compute_tok_score_cart doc_reps doc_input_ids qry_reps qry_input_ids qry_attention_mask
           = Inl RuntimeError"
  using assms by (simp add: compute_tok_score_cart_def Let_def)

text \<open>
  C4. Let the query ids and the query mask be tensors of shape \<open>Q \<times> LQ\<close> and the document
  ids and document weights tensors of shape \<open>D \<times> LD\<close>, let the document weights be
  non-negative and the mask 0/1, and let the query weights be what \<^verbatim>\<open>forward\<close> passes
  (line 139: all ones, of the shape of the query ids). Then every output of
  \<^verbatim>\<open>compute_tok_score_cart\<close> is a matrix with \<open>Q\<close> rows of \<open>D\<close> cells, and every cell
  is \<open>\<ge> 0\<close>. There is an output whenever the documents have a token position (or there
  is no document); without one, \<^verbatim>\<open>max\<close> over the empty dimension raises.
\<close>

theorem compute_tok_score_cart_shape_nonneg:
  assumes "tensor_shape Q LQ qry_input_ids" "tensor_shape Q LQ qry_attention_mask"
    and "tensor_shape D LD doc_reps" "tensor_shape D LD doc_input_ids"
    and "\<forall>r\<in>set doc_reps. \<forall>w\<in>set r. 0 \<le> w"
    and "\<forall>r\<in>set qry_attention_mask. \<forall>a\<in>set r. a = 0 \<or> a = 1"
  shows "(0 < LD \<or> D = 0 \<longrightarrow>
            (\<exists>scores. compute_tok_score_cart doc_reps doc_input_ids (ones_like qry_input_ids)
                        qry_input_ids qry_attention_mask = Inr scores))
       \<and> (\<forall>scores. compute_tok_score_cart doc_reps doc_input_ids (ones_like qry_input_ids)
                      qry_input_ids qry_attention_mask = Inr scores \<longrightarrow>
             length scores = Q
             \<and> (\<forall>row\<in>set scores. length row = D \<and> (\<forall>s\<in>set row. 0 \<le> s)))"
proof -
  let ?out = "compute_tok_score_cart doc_reps doc_input_ids (ones_like qry_input_ids)
                qry_input_ids qry_attention_mask"
  have am: "\<forall>r\<in>set qry_attention_mask. \<forall>a\<in>set r. 0 \<le> a"
    using assms(6) by fastforce
  have good: "\<exists>scores. ?out = Inr scores \<and> length scores = Q
                \<and> (\<forall>row\<in>set scores. good_row D row)"
    if "tensor_shape D L doc_reps" "tensor_shape D L doc_input_ids" "0 < L" for L
    by (rule compute_tok_score_cart_good
          [OF ones_like_shape [OF assms(1)] assms(1,2) that ones_like_nonneg assms(5) am])
  consider (pos) "0 < LD" | (nodoc) "D = 0" | (nopos) "LD = 0" "0 < D" by linarith
  then show ?thesis
  proof cases
    case pos
    from good [OF assms(3,4) pos] show ?thesis by (auto simp: good_row_def)
  next
    case nodoc
    with assms(3,4) have "tensor_shape D 1 doc_reps" "tensor_shape D 1 doc_input_ids"
      by (simp_all add: tensor_shape_def)
    from good [OF this] show ?thesis by (auto simp: good_row_def)
  next
    case nopos
    with assms(3) have "[] \<in> set doc_reps"
      by (cases doc_reps) (auto simp: tensor_shape_def)
    then have "?out = Inl RuntimeError" by (rule compute_tok_score_cart_empty_positions)
    with nopos show ?thesis by simp
  qed
qed

theorem compute_tok_score_cart_shape_nonneg_witness:
  "compute_tok_score_cart [[1, 2], [3, 4], [0, 5]] [[7, 8], [9, 7], [5, 5]]
     (ones_like [[5, 7, 8], [5, 9, 1]]) [[5, 7, 8], [5, 9, 1]] [[1, 1, 0], [1, 1, 1]]
   = Inr [[1, 4, 0], [0, 3, 0]]"
proof -
  have "(0 < (2::nat) \<or> (3::nat) = 0 \<longrightarrow>
          (\<exists>scores. compute_tok_score_cart [[1, 2], [3, 4], [0, 5]] [[7, 8], [9, 7], [5, 5]]
             (ones_like [[5, 7, 8], [5, 9, 1]]) [[5, 7, 8], [5, 9, 1]] [[1, 1, 0], [1, 1, 1]]
             = Inr scores))
     \<and> (\<forall>scores. compute_tok_score_cart [[1, 2], [3, 4], [0, 5]] [[7, 8], [9, 7], [5, 5]]
             (ones_like [[5, 7, 8], [5, 9, 1]]) [[5, 7, 8], [5, 9, 1]] [[1, 1, 0], [1, 1, 1]]
             = Inr scores \<longrightarrow>
           length scores = 2
           \<and> (\<forall>row\<in>set scores. length row = 3 \<and> (\<forall>s\<in>set row. 0 \<le> s)))"
    by (rule compute_tok_score_cart_shape_nonneg [where LQ = 3]) (simp_all add: tensor_shape_def)
  then obtain scores where
    "compute_tok_score_cart [[1, 2], [3, 4], [0, 5]] [[7, 8], [9, 7], [5, 5]]
       (ones_like [[5, 7, 8], [5, 9, 1]]) [[5, 7, 8], [5, 9, 1]] [[1, 1, 0], [1, 1, 1]]
     = Inr scores"
    by auto
  moreover from this have "scores = [[1, 4, 0], [0, 3, 0]]"
    by (simp add: compute_tok_score_cart_def exact_match_def shape2_def view_col_def ones_like_def
        matmul_col_row_def blocks_def view4_def mul4_def mul_mask_def sum_dim1_def Let_def upt_rec)
  ultimately show ?thesis by simp
qed

subsection \<open>\<^verbatim>\<open>forward\<close>: the ranking labels\<close>

lemma mask_sep_length:
  "mask_sep h mr = Inr (h', r') \<Longrightarrow> length (h' r) = length (h r)"
  by (auto simp: mask_sep_eq split: if_splits)

lemma forward_scores_length:
  assumes "forward_scores self h qry_in doc_in = Inr (scores, h')"
    and "qry_in ''input_ids'' = Some r"
  shows "length scores = length (h r)"
proof -
  from assms obtain doc_reps di mr h1 r1 where
    m: "mask_sep h mr = Inr (h1, r1)"
    and c: "compute_tok_score_cart doc_reps (h1 di) (ones_like (h1 r)) (h1 r) (h1 mr) = Inr scores"
    by (auto simp: forward_scores_def Let_def getitem_def
        split: option.splits sum.splits prod.splits)
  from c have "length scores = length (h1 r)" by (rule compute_tok_score_cart_length)
  with m show ?thesis by (simp add: mask_sep_length)
qed

lemma scenario_scores: "forward_scores scenario_model scenario_heap scenario_qry scenario_doc
   = Inr ([[0, 0, 0, 2, 0, 0, 0, 0]], scenario_heap(1 := [[1, 1, 0]]))"
  by (simp add: forward_scores_def scenario_model_def scenario_heap_def scenario_qry_def
      scenario_doc_def load_def getitem_def ones_like_def relu_def mask_sep_def sep_pos_def zeros_like_def
      compute_tok_score_cart_def exact_match_def shape2_def view_col_def
      matmul_col_row_def blocks_def view4_def mul4_def mul_mask_def sum_dim1_def Let_def upt_rec)

lemma two_query_scores: "forward_scores two_query_model two_query_heap scenario_qry scenario_doc
   = Inr ([[2, 0, 0, 0], [0, 0, 3, 0]], two_query_heap(1 := [[1, 1, 0], [1, 1, 0]]))"
  by (simp add: forward_scores_def two_query_model_def two_query_heap_def scenario_qry_def
      scenario_doc_def load_def getitem_def ones_like_def relu_def mask_sep_def sep_pos_def zeros_like_def
      compute_tok_score_cart_def exact_match_def shape2_def view_col_def
      matmul_col_row_def blocks_def view4_def mul4_def mul_mask_def sum_dim1_def Let_def upt_rec)

text \<open>
  C2, as stated, fails in its first part. In the scenario (one query, a group of eight
  documents, the matching document at index \<open>3\<close>) the labels of \<^verbatim>\<open>forward\<close> are
  \<open>[0]\<close>, not \<open>[3]\<close>: \<^verbatim>\<open>forward\<close> is not told where the positive document is.
\<close>

theorem forward_labels_scenario_counterexample:
  "forward_labels scenario_model scenario_heap scenario_qry scenario_doc = Inr [0]
   \<and> forward_labels scenario_model scenario_heap scenario_qry scenario_doc \<noteq> Inr [3]"
  by (simp add: forward_labels_def scenario_scores ranking_labels_def)

text \<open>
  C2, amended. Whenever \<^verbatim>\<open>forward\<close> reaches its labels, they are
  \<^verbatim>\<open>arange(n) * train_group_size\<close> with \<open>n\<close> the number of query rows; for a batch of
  exactly one query they are \<open>[0]\<close>, whatever the group size and wherever the positive
  document is.
\<close>

theorem forward_labels_arange:
  assumes "forward_labels self h qry_in doc_in = Inr labels"
    and "qry_in ''input_ids'' = Some r"
  shows "labels = map (\<lambda>i. int i * int (train_group_size self)) [0..<length (h r)]
         \<and> (length (h r) = 1 \<longrightarrow> labels = [0])"
proof -
  from assms(1) obtain scores h' where
    f: "forward_scores self h qry_in doc_in = Inr (scores, h')"
    and l: "labels = ranking_labels (train_group_size self) scores"
    by (auto simp: forward_labels_def split: sum.splits prod.splits)
  from f assms(2) have "length scores = length (h r)" by (rule forward_scores_length)
  with l show ?thesis by (simp add: ranking_labels_def)
qed

theorem forward_labels_arange_witness:
  "forward_labels two_query_model two_query_heap scenario_qry scenario_doc = Inr [0, 2]"
proof -
  have a: "forward_labels two_query_model two_query_heap scenario_qry scenario_doc
             = Inr (ranking_labels (train_group_size two_query_model)
                      [[2, 0, 0, 0], [0, 0, 3, 0]])"
    by (simp add: forward_labels_def two_query_scores)
  have b: "scenario_qry ''input_ids'' = Some 0" by (simp add: scenario_qry_def)
  from forward_labels_arange [OF a b]
  have "ranking_labels (train_group_size two_query_model) [[2, 0, 0, 0], [0, 0, 3, 0]]
          = map (\<lambda>i. int i * int (train_group_size two_query_model))
              [0..<length (two_query_heap 0)]"
    by simp
  also have "\<dots> = [0, 2]"
    by (simp add: two_query_model_def two_query_heap_def upt_rec)
  finally show ?thesis using a by simp
qed


subsection \<open>\<^verbatim>\<open>training_step\<close>\<close>

lemma sum_where:
  "sum_list (map f (where_eq y v)) = (\<Sum>j | j < length y \<and> y ! j = v. f j)"
proof -
  have "distinct (where_eq y v)" by (simp add: where_eq_def)
  then have "sum_list (map f (where_eq y v)) = sum f (set (where_eq y v))"
    by (rule sum_list_distinct_conv_sum_set)
  moreover have "set (where_eq y v) = {j. j < length y \<and> y ! j = v}"
    by (auto simp: where_eq_def)
  ultimately show ?thesis by simp
qed

lemma index_select_where:
  "length y \<le> length prob \<Longrightarrow>
     index_select prob (where_eq y v) = Inr (map (\<lambda>j. prob ! j) (where_eq y v))"
  by (auto simp: index_select_def where_eq_def list_all_iff)

lemma example_log_sum_spec:
  assumes "length y \<le> length logits"
  shows "example_log_sum y (map sigmoid logits) = Inr (- spec_example_loss y logits)"
proof -
  have l: "length y \<le> length (map sigmoid logits)" using assms by simp
  have n: "\<And>j. j \<in> set (where_eq y v) \<Longrightarrow> j < length logits" for v
    using assms by (auto simp: where_eq_def)
  have p: "map ln (map (\<lambda>j. map sigmoid logits ! j) (where_eq y 1))
           = map (\<lambda>j. ln (sigmoid (logits ! j))) (where_eq y 1)"
    using n by (simp add: comp_def)
  have q: "map (\<lambda>p. ln (1 - p)) (map (\<lambda>j. map sigmoid logits ! j) (where_eq y 0))
           = map (\<lambda>j. ln (1 - sigmoid (logits ! j))) (where_eq y 0)"
    using n by (simp add: comp_def)
  show ?thesis
    unfolding example_log_sum_def pos_log_sum_def neg_log_sum_def
      index_select_where [OF l] spec_example_loss_def
    by (simp add: p q sum_where del: map_map)
qed

lemma bdqlm_loop_closed:
  assumes "\<forall>i\<in>set is. i < length yq \<and> i < length pl \<and> i < length yd \<and> i < length ql
             \<and> length (yq ! i) \<le> length (pl ! i) \<and> length (yd ! i) \<le> length (ql ! i)"
  shows "bdqlm_loop yq (map (map sigmoid) pl) yd (map (map sigmoid) ql) is (a, b)
         = Inr (a + (\<Sum>i\<leftarrow>is. spec_example_loss (yq ! i) (pl ! i)),
                b + (\<Sum>i\<leftarrow>is. spec_example_loss (yd ! i) (ql ! i)))"
  using assms
proof (induction "is" arbitrary: a b)
  case Nil
  show ?case by simp
next
  case (Cons i rest)
  then have i: "i < length yq" "i < length pl" "i < length yd" "i < length ql"
    "length (yq ! i) \<le> length (pl ! i)" "length (yd ! i) \<le> length (ql ! i)"
    by auto
  have r: "\<forall>i\<in>set rest. i < length yq \<and> i < length pl \<and> i < length yd \<and> i < length ql
             \<and> length (yq ! i) \<le> length (pl ! i) \<and> length (yd ! i) \<le> length (ql ! i)"
    using Cons.prems by simp
  show ?case
    using i by (simp add: row_at_def example_log_sum_spec Cons.IH [OF r])
qed


lemma training_step_closed:
  assumes "lm_logits self (passage_input_ids b, passage_token_type_ids b, passage_attention_mask b)
             = Some pl"
    and "lm_logits self (query_input_ids b, query_token_type_ids b, query_ttention_mask b) = Some ql"
    and "length (yqs b) = n" "length (yds b) = n" "length pl = n" "length ql = n"
    and "\<forall>i<n. pl ! i \<noteq> [] \<and> ql ! i \<noteq> []
           \<and> length (yqs b ! i) = length (hd (pl ! i)) \<and> length (yds b ! i) = length (hd (ql ! i))"
    and "num_valid_tok self \<noteq> 0"
  shows "training_step self b =
           Inr ((\<Sum>i<n. spec_example_loss (yqs b ! i) (hd (pl ! i))
                       + spec_example_loss (yds b ! i) (hd (ql ! i)))
                / (real_of_int (num_valid_tok self) * 2))"
proof -
  have ne: "[] \<notin> set pl" "[] \<notin> set ql"
    using assms(5-7) by (auto simp: in_set_conv_nth)
  have fp: "first_position pl = Inr (map hd pl)" "first_position ql = Inr (map hd ql)"
    using ne by (simp_all add: first_position_def)
  have pre: "\<forall>i\<in>set [0..<n]. i < length (yqs b) \<and> i < length (map hd pl) \<and> i < length (yds b)
               \<and> i < length (map hd ql)
               \<and> length (yqs b ! i) \<le> length (map hd pl ! i)
               \<and> length (yds b ! i) \<le> length (map hd ql ! i)"
    using assms(3-7) by simp
  have loop: "bdqlm_loop (yqs b) (map (map sigmoid) (map hd pl)) (yds b)
                (map (map sigmoid) (map hd ql)) [0..<n] (0, 0)
              = Inr (0 + (\<Sum>i\<leftarrow>[0..<n]. spec_example_loss (yqs b ! i) (map hd pl ! i)),
                     0 + (\<Sum>i\<leftarrow>[0..<n]. spec_example_loss (yds b ! i) (map hd ql ! i)))"
    by (rule bdqlm_loop_closed [OF pre])
  have sp: "(\<Sum>i\<leftarrow>[0..<n]. spec_example_loss (yqs b ! i) (map hd pl ! i))
            = (\<Sum>i<n. spec_example_loss (yqs b ! i) (hd (pl ! i)))"
    using assms(5) by (simp add: interv_sum_list_conv_sum_set_nat atLeast0LessThan)
  have sq: "(\<Sum>i\<leftarrow>[0..<n]. spec_example_loss (yds b ! i) (map hd ql ! i))
            = (\<Sum>i<n. spec_example_loss (yds b ! i) (hd (ql ! i)))"
    using assms(6) by (simp add: interv_sum_list_conv_sum_set_nat atLeast0LessThan)
  have "training_step self b =
          (if num_valid_tok self * 2 = 0
           then Inl (if n = 0 then ZeroDivisionError else NotFinite)
           else Inr ((0 + (\<Sum>i<n. spec_example_loss (yqs b ! i) (hd (pl ! i)))
                      + (0 + (\<Sum>i<n. spec_example_loss (yds b ! i) (hd (ql ! i)))))
                     / of_int (num_valid_tok self * 2)))"
    by (simp only: training_step_def assms(1,2) option.case fp sum.case Let_def assms(3)
        loop prod.case sp sq)
  then show ?thesis
    using assms(8) by (simp add: sum.distrib)
qed

text \<open>
  C1. Let the model be built by the constructor from a tokenizer and the stop ids, and let
  the batch be well formed: the encoder returns logits for \<open>n\<close> passages and \<open>n\<close>
  queries, there are \<open>n\<close> label vectors on each side, and each label vector is as long
  as the first-position logits of its example. Then \<^verbatim>\<open>num_valid_tok\<close> is the vocabulary
  size minus the number of stop ids and, when that number is not zero, the loss returned
  by \<^verbatim>\<open>training_step\<close> is the sum over both sides and over all \<open>n\<close> examples of
  \<open>- \<Sum> ln p\<close> over the indices labelled \<open>1\<close> plus \<open>- \<Sum> ln (1 - p)\<close> over the indices
  labelled \<open>0\<close>, \<open>p\<close> being the sigmoid of the first-position logits, divided by
  \<open>num_valid_tok * 2\<close>.
\<close>

theorem training_step_loss:
  assumes "lm (passage_input_ids b, passage_token_type_ids b, passage_attention_mask b) = Some pl"
    and "lm (query_input_ids b, query_token_type_ids b, query_ttention_mask b) = Some ql"
    and "length (yqs b) = n" "length (yds b) = n" "length pl = n" "length ql = n"
    and "\<forall>i<n. pl ! i \<noteq> [] \<and> ql ! i \<noteq> []
           \<and> length (yqs b ! i) = length (hd (pl ! i)) \<and> length (yds b ! i) = length (hd (ql ! i))"
    and "vocab_size tok \<noteq> int (fcard (get_stop_ids tok))"
  shows "num_valid_tok (TILDE_init lm tok get_stop_ids)
           = vocab_size tok - int (fcard (get_stop_ids tok))
       \<and> training_step (TILDE_init lm tok get_stop_ids) b =
           Inr ((\<Sum>i<n. spec_example_loss (yqs b ! i) (hd (pl ! i))
                       + spec_example_loss (yds b ! i) (hd (ql ! i)))
                / (real_of_int (vocab_size tok - int (fcard (get_stop_ids tok))) * 2))"
proof -
  let ?m = "TILDE_init lm tok get_stop_ids"
  have nv: "num_valid_tok ?m = vocab_size tok - int (fcard (get_stop_ids tok))"
    by (simp add: TILDE_init_def)
  have l: "lm_logits ?m = lm" by (simp add: TILDE_init_def)
  have "training_step ?m b =
           Inr ((\<Sum>i<n. spec_example_loss (yqs b ! i) (hd (pl ! i))
                       + spec_example_loss (yds b ! i) (hd (ql ! i)))
                / (real_of_int (num_valid_tok ?m) * 2))"
    by (rule training_step_closed [where pl = pl and ql = ql])
       (use assms in \<open>simp_all add: l nv\<close>)
  then show ?thesis by (simp add: nv)
qed

theorem training_step_loss_witness:
  "training_step (TILDE_init (\<lambda>x. Some [[[0, 0], [5, 5]]]) \<lparr>vocab_size = 4\<rparr> (\<lambda>t. {|3|}))
     tiny_batch
     = Inr ((\<Sum>i<1. spec_example_loss (yqs tiny_batch ! i) (hd ([[[0, 0], [5, 5]]] ! i))
                       + spec_example_loss (yds tiny_batch ! i) (hd ([[[0, 0], [5, 5]]] ! i)))
                / (real_of_int (4 - 1) * 2))
   \<and> training_step (TILDE_init (\<lambda>x. Some [[[0, 0], [5, 5]]]) \<lparr>vocab_size = 4\<rparr> (\<lambda>t. {|3|}))
     tiny_batch
     = Inr (2 * ln 2 / 3)"
proof
  show "training_step (TILDE_init (\<lambda>x. Some [[[0, 0], [5, 5]]]) \<lparr>vocab_size = 4\<rparr> (\<lambda>t. {|3|}))
     tiny_batch
     = Inr ((\<Sum>i<1. spec_example_loss (yqs tiny_batch ! i) (hd ([[[0, 0], [5, 5]]] ! i))
                       + spec_example_loss (yds tiny_batch ! i) (hd ([[[0, 0], [5, 5]]] ! i)))
                / (real_of_int (4 - 1) * 2))"
    using training_step_loss [of "\<lambda>x. Some [[[0, 0], [5, 5]]]" tiny_batch "[[[0, 0], [5, 5]]]"
        "[[[0, 0], [5, 5]]]" 1 "\<lparr>vocab_size = 4\<rparr>" "\<lambda>t. {|3|}"]
    by (simp add: tiny_batch_def fcard_finsert_if fcard_fempty)
  show "training_step (TILDE_init (\<lambda>x. Some [[[0, 0], [5, 5]]]) \<lparr>vocab_size = 4\<rparr> (\<lambda>t. {|3|}))
     tiny_batch
     = Inr (2 * ln 2 / 3)"
    by (simp add: training_step_def TILDE_init_def tiny_batch_def first_position_def Let_def
        row_at_def example_log_sum_def pos_log_sum_def neg_log_sum_def index_select_def
        where_eq_def sigmoid_def upt_rec ln_div fcard_finsert_if fcard_fempty)
qed

text \<open>
  C6. For a label vector of ones only, the sum of the negative log terms of that example
  is exactly \<open>0\<close>; for a label vector of zeros only, the sum of the positive log terms
  is exactly \<open>0\<close>: the index set is empty, and the sum over it is \<open>0\<close>.
\<close>

theorem empty_index_set_contributes_zero:
  "((\<forall>l\<in>set y. l = 1) \<longrightarrow> neg_log_sum y prob = Inr 0)
   \<and> ((\<forall>l\<in>set y. l = 0) \<longrightarrow> pos_log_sum y prob = Inr 0)"
proof (intro conjI impI)
  assume "\<forall>l\<in>set y. l = 1"
  then have "where_eq y 0 = []" by (auto simp: where_eq_def filter_empty_conv all_set_conv_all_nth)
  then show "neg_log_sum y prob = Inr 0" by (simp add: neg_log_sum_def index_select_def)
next
  assume "\<forall>l\<in>set y. l = 0"
  then have "where_eq y 1 = []" by (auto simp: where_eq_def filter_empty_conv all_set_conv_all_nth)
  then show "pos_log_sum y prob = Inr 0" by (simp add: pos_log_sum_def index_select_def)
qed

theorem empty_index_set_contributes_zero_witness:
  "neg_log_sum [1, 1, 1] [1 / 2, 1 / 4, 1 / 8] = Inr 0
   \<and> pos_log_sum [0, 0, 0] [1 / 2, 1 / 4, 1 / 8] = Inr 0"
  using empty_index_set_contributes_zero [of "[1, 1, 1]" "[1 / 2, 1 / 4, 1 / 8]"]
    empty_index_set_contributes_zero [of "[0, 0, 0]" "[1 / 2, 1 / 4, 1 / 8]"]
  by simp

end
